theory Spec2Isabelle
  imports Main "HOL-Library.Word"
begin

unbundle bit_operations_syntax

section \<open>The host application (Maya) as the override sees it\<close>

text \<open>
  \<^verbatim>\<open>OpenSubdivShaderOverride.cpp\<close> is a Viewport 2.0 shader override. Everything it
  calls in Maya is modelled as data: objects are handles, a pointer is an optional address
  (\<open>None\<close> is the null pointer), and what the host answers to a call (a status, a handle)
  is an argument of the model.
\<close>

type_synonym addr = nat

datatype MObject = kNullObj | Obj nat

text \<open>A DAG path is the list of nodes from the root; \<^verbatim>\<open>MDagPath::node()\<close> is its last node.\<close>

type_synonym MDagPath = "MObject list"

definition MDagPath_node :: "MDagPath \<Rightarrow> MObject" where
  "MDagPath_node p = (case rev p of [] \<Rightarrow> kNullObj | n # _ \<Rightarrow> n)"

datatype MStatus =
    kSuccess | kFailure | kInsufficientMemory | kInvalidParameter | kLicenseFailure
  | kUnknownParameter | kNotImplemented | kNotFound | kEndOfFile

record MPlug =
  plug_node :: MObject
  plug_attribute :: MObject

text \<open>
  The parts of the Maya API whose values the source only names: the bit of
  \<^verbatim>\<open>MNodeMessage::kAttributeEval\<close> in an attribute message,
  \<^verbatim>\<open>MFnDependencyNode::attribute(name)\<close>, \<^verbatim>\<open>MDagPath::extendToShape()\<close> and
  \<^verbatim>\<open>MPxHwShaderNode::getHwShaderNodePtr\<close>. They are parameters of the model.
\<close>

record maya =
  kAttributeEval :: "32 word"
  attribute :: "MObject \<Rightarrow> string \<Rightarrow> MObject"
  extendToShape :: "MDagPath \<Rightarrow> MDagPath"
  getHwShaderNodePtr :: "MObject \<Rightarrow> addr option"

text \<open>\<^verbatim>\<open>MPlug::operator==(const MObject&)\<close>: the plug is a plug of that attribute.\<close>

definition plug_eq :: "MPlug \<Rightarrow> MObject \<Rightarrow> bool" where
  "plug_eq plug attr = (plug_attribute plug = attr)"

subsection \<open>Per-mesh data\<close>

text \<open>
  Modelled from the spec: the class \<^verbatim>\<open>OsdMeshData\<close> (\<^verbatim>\<open>osdMeshData.h\<close>) is not among
  the sources. The spec's data model gives it the stable handle of its mesh source and the
  dirty flags \<open>{topologyDirty, attributesDirty, buffersStaleForFrame}\<close>, the first of
  which the change tracker sets.
\<close>

record OsdMeshData =
  mesh_dagPath :: MDagPath
  topologyDirty :: bool
  attributesDirty :: bool
  buffersStaleForFrame :: bool

text \<open>Modelled from the spec: \<^verbatim>\<open>OsdMeshData::getDagPath\<close>, the handle of the mesh source.\<close>

definition getDagPath :: "OsdMeshData \<Rightarrow> MDagPath" where
  "getDagPath d = mesh_dagPath d"

text \<open>Modelled from the spec: \<^verbatim>\<open>OsdMeshData::setMeshTopoDirty\<close> sets \<open>topologyDirty\<close>.\<close>

definition setMeshTopoDirty :: "OsdMeshData \<Rightarrow> OsdMeshData" where
  "setMeshTopoDirty d = d\<lparr>topologyDirty := True\<rparr>"

text \<open>The mesh data objects live in a store; the callback gets one by address.\<close>

type_synonym store = "addr \<rightharpoonup> OsdMeshData"

section \<open>The change callback\<close>

datatype cb_error = InvalidClientData addr

text \<open>
  \<^verbatim>\<open>attrChangedCB(msg, plug, otherPlug, clientData)\<close>, lines 135-148. The client data is
  dereferenced only inside the first test; a pointer to no live object is an error there.
\<close>

definition attrChangedCB ::
  "maya \<Rightarrow> 32 word \<Rightarrow> MPlug \<Rightarrow> MPlug \<Rightarrow> addr \<Rightarrow> store \<Rightarrow> cb_error + store" where
  "attrChangedCB M msg plug otherPlug clientData st =
     (if msg AND kAttributeEval M \<noteq> 0 then
        (case st clientData of
           None \<Rightarrow> Inl (InvalidClientData clientData)
         | Some meshData \<Rightarrow>
             if plug_eq plug (attribute M (MDagPath_node (getDagPath meshData)) ''outMesh'')
             then Inr (st(clientData \<mapsto> setMeshTopoDirty meshData))
             else Inr st)
      else Inr st)"

section \<open>Subscriptions\<close>

type_synonym MCallbackId = nat

record callback_entry =
  cb_id :: MCallbackId
  cb_node :: MObject
  cb_clientData :: addr

text \<open>The host's table of registered callbacks, and the next callback id it hands out.\<close>

record MMessage =
  callbacks :: "callback_entry list"
  next_id :: MCallbackId

text \<open>
  \<^verbatim>\<open>MNodeMessage::addAttributeChangedCallback(node, func, clientData, &status)\<close>. Whether
  the host accepts the registration is its own decision: the status it reports is an
  argument. An accepted registration gets a fresh id.
\<close>

definition addAttributeChangedCallback ::
  "MObject \<Rightarrow> addr \<Rightarrow> MStatus \<Rightarrow> MMessage \<Rightarrow> MCallbackId \<times> MStatus \<times> MMessage" where
  "addAttributeChangedCallback n clientData reported h =
     (if reported = kSuccess
      then (next_id h, kSuccess,
            h\<lparr>callbacks := callbacks h @ [\<lparr>cb_id = next_id h, cb_node = n, cb_clientData = clientData\<rparr>],
              next_id := Suc (next_id h)\<rparr>)
      else (0, reported, h))"

text \<open>\<^verbatim>\<open>MMessage::removeCallbacks(ids)\<close>.\<close>

definition removeCallbacks :: "MCallbackId list \<Rightarrow> MMessage \<Rightarrow> MMessage" where
  "removeCallbacks ids h = h\<lparr>callbacks := filter (\<lambda>e. cb_id e \<notin> set ids) (callbacks h)\<rparr>"

text \<open>The override object: \<^verbatim>\<open>_shader\<close> and \<^verbatim>\<open>_callbackIds\<close>.\<close>

record OpenSubdivShaderOverride =
  shader :: "addr option"
  callbackIds :: "MCallbackId list"

text \<open>The constructor, lines 106-110.\<close>

definition OpenSubdivShaderOverride_ctor :: OpenSubdivShaderOverride where
  "OpenSubdivShaderOverride_ctor = \<lparr>shader = None, callbackIds = []\<rparr>"

text \<open>The destructor, lines 112-115.\<close>

definition OpenSubdivShaderOverride_dtor :: "OpenSubdivShaderOverride \<Rightarrow> MMessage \<Rightarrow> MMessage" where
  "OpenSubdivShaderOverride_dtor ov h = removeCallbacks (callbackIds ov) h"

text \<open>
  \<^verbatim>\<open>addTopologyChangedCallbacks(dagPath, data)\<close>, lines 157-174. The id is appended only
  when the status is a success; otherwise a message goes to \<^verbatim>\<open>cerr\<close> and nothing is
  recorded.
\<close>

definition addTopologyChangedCallbacks ::
  "maya \<Rightarrow> MDagPath \<Rightarrow> addr \<Rightarrow> MStatus \<Rightarrow> OpenSubdivShaderOverride \<times> MMessage
     \<Rightarrow> OpenSubdivShaderOverride \<times> MMessage" where
  "addTopologyChangedCallbacks M dagPath data reported ovh =
     (let ov = fst ovh; h = snd ovh;
          meshDagPath = extendToShape M dagPath;
          shapeNode = MDagPath_node meshDagPath;
          (cid, status, h') = addAttributeChangedCallback shapeNode data reported h
      in if status = kSuccess
         then (ov\<lparr>callbackIds := callbackIds ov @ [cid]\<rparr>, h')
         else (ov, h'))"

text \<open>
  The calls of \<^verbatim>\<open>addTopologyChangedCallbacks\<close> one override makes in its life, each with
  the path, the mesh data and the status the host reports for it.
\<close>

fun subscribe_all ::
  "maya \<Rightarrow> (MDagPath \<times> addr \<times> MStatus) list \<Rightarrow> OpenSubdivShaderOverride \<times> MMessage
     \<Rightarrow> OpenSubdivShaderOverride \<times> MMessage" where
  "subscribe_all M [] ovh = ovh"
| "subscribe_all M ((dagPath, data, reported) # rest) ovh =
     subscribe_all M rest (addTopologyChangedCallbacks M dagPath data reported ovh)"

text \<open>
  A notification of the host about a node: every callback registered on that node is
  called with its client data, in the order of registration.
\<close>

fun deliver ::
  "maya \<Rightarrow> callback_entry list \<Rightarrow> MObject \<Rightarrow> 32 word \<Rightarrow> MPlug \<Rightarrow> MPlug \<Rightarrow> store
     \<Rightarrow> cb_error + store" where
  "deliver M [] n msg plug otherPlug st = Inr st"
| "deliver M (e # es) n msg plug otherPlug st =
     (if cb_node e = n
      then (case attrChangedCB M msg plug otherPlug (cb_clientData e) st of
              Inl err \<Rightarrow> Inl err
            | Inr st' \<Rightarrow> deliver M es n msg plug otherPlug st')
      else deliver M es n msg plug otherPlug st)"

text \<open>
  The host hands out fresh ids: every id in its table is below the next one.
\<close>

definition host_ids_fresh :: "MMessage \<Rightarrow> bool" where
  "host_ids_fresh h = list_all (\<lambda>e. cb_id e < next_id h) (callbacks h)"

text \<open>The registrations the host accepted.\<close>

definition accepted :: "(MDagPath \<times> addr \<times> MStatus) list \<Rightarrow> (MDagPath \<times> addr \<times> MStatus) list" where
  "accepted reqs = filter (\<lambda>r. snd (snd r) = kSuccess) reqs"

text \<open>
  \<^verbatim>\<open>updateDG(object)\<close>, lines 228-242: the only place that sets \<^verbatim>\<open>_shader\<close>. The
  pointer it stores may be null, which the function itself tests before it calls
  \<^verbatim>\<open>updateAttributes\<close> (a call into the shader, not modelled).
\<close>

definition updateDG :: "maya \<Rightarrow> MObject \<Rightarrow> OpenSubdivShaderOverride \<Rightarrow> OpenSubdivShaderOverride" where
  "updateDG M object ov =
     (if object = kNullObj then ov else ov\<lparr>shader := getHwShaderNodePtr M object\<rparr>)"

text \<open>The two tests of the callback, as one predicate on a notification.\<close>

definition outMesh_evaluated :: "maya \<Rightarrow> 32 word \<Rightarrow> MPlug \<Rightarrow> OsdMeshData \<Rightarrow> bool" where
  "outMesh_evaluated M msg plug meshData =
     (msg AND kAttributeEval M \<noteq> 0 \<and>
      plug_eq plug (attribute M (MDagPath_node (getDagPath meshData)) ''outMesh''))"

section \<open>Plugin registration and the compute controllers\<close>

text \<open>
  Lines 79-104 declare one global pointer per compute controller, the optional ones under
  the preprocessor symbols of the build. The build is a record of those symbols.
\<close>

datatype controller =
    OsdCpuComputeController | OsdOmpComputeController
  | OsdCudaComputeController | OsdCLComputeController

record build_config =
  APPLE :: bool
  OPENSUBDIV_HAS_OPENMP :: bool
  OPENSUBDIV_HAS_OPENCL :: bool
  OPENSUBDIV_HAS_CUDA :: bool

text \<open>
  What the environment answers during \<^verbatim>\<open>initializePlugin\<close>: \<^verbatim>\<open>initCL\<close>
  (from \<^verbatim>\<open>../common/clInit.h\<close>, not among the sources) gives a context and a queue or
  fails, and each registration reports a status.
\<close>

record init_env =
  initCL :: "(nat \<times> nat) option"
  registerNode :: MStatus
  registerVertexBufferGenerator :: MStatus
  registerShaderOverrideCreator :: MStatus

datatype event =
    GlewInit
  | New controller addr
  | Delete controller addr
  | CudaInit
  | InitCL bool
  | DisplayError string

text \<open>
  The state of the process: the global pointers, the objects allocated with \<^verbatim>\<open>new\<close>
  and not yet deleted (in allocation order), what is registered with the host, and the
  trace of acquisitions and releases.
\<close>

record plugin_state =
  g_cpuComputeController :: "addr option"
  g_ompComputeController :: "addr option"
  g_clContext :: "nat option"
  g_clQueue :: "nat option"
  g_clComputeController :: "addr option"
  g_cudaComputeController :: "addr option"
  heap :: "(addr \<times> controller) list"
  next_addr :: addr
  nodeRegistered :: bool
  vertexBufferGeneratorRegistered :: bool
  shaderOverrideCreatorRegistered :: bool
  trace :: "event list"

text \<open>The process before the plugin is loaded: the globals are zero-initialised.\<close>

definition process_start :: plugin_state where
  "process_start =
     \<lparr>g_cpuComputeController = None, g_ompComputeController = None,
      g_clContext = None, g_clQueue = None, g_clComputeController = None,
      g_cudaComputeController = None, heap = [], next_addr = 1,
      nodeRegistered = False, vertexBufferGeneratorRegistered = False,
      shaderOverrideCreatorRegistered = False, trace = []\<rparr>"

definition log_event :: "event \<Rightarrow> plugin_state \<Rightarrow> plugin_state" where
  "log_event e s = s\<lparr>trace := trace s @ [e]\<rparr>"

text \<open>\<^verbatim>\<open>new K()\<close>: a fresh address, live from now on.\<close>

definition new_controller :: "controller \<Rightarrow> plugin_state \<Rightarrow> addr \<times> plugin_state" where
  "new_controller k s =
     (next_addr s,
      s\<lparr>heap := heap s @ [(next_addr s, k)], next_addr := Suc (next_addr s),
        trace := trace s @ [New k (next_addr s)]\<rparr>)"

datatype mem_error = DeleteOfDeadObject addr

text \<open>
  \<^verbatim>\<open>delete p\<close>: nothing for the null pointer, the end of a live object, and an error
  (undefined behaviour in the source) for a pointer to an object already deleted.
\<close>

definition delete_controller :: "addr option \<Rightarrow> plugin_state \<Rightarrow> mem_error + plugin_state" where
  "delete_controller p s =
     (case p of
        None \<Rightarrow> Inr s
      | Some a \<Rightarrow>
          (case map_of (heap s) a of
             None \<Rightarrow> Inl (DeleteOfDeadObject a)
           | Some k \<Rightarrow>
               Inr (s\<lparr>heap := filter (\<lambda>obj. fst obj \<noteq> a) (heap s),
                      trace := trace s @ [Delete k a]\<rparr>)))"

text \<open>Lines 446-455: the controllers created without any test.\<close>

definition create_cpu :: "plugin_state \<Rightarrow> plugin_state" where
  "create_cpu s =
     (let (a, s') = new_controller OsdCpuComputeController s
      in s'\<lparr>g_cpuComputeController := Some a\<rparr>)"

definition create_omp :: "build_config \<Rightarrow> plugin_state \<Rightarrow> plugin_state" where
  "create_omp cfg s =
     (if OPENSUBDIV_HAS_OPENMP cfg
      then (let (a, s') = new_controller OsdOmpComputeController s
            in s'\<lparr>g_ompComputeController := Some a\<rparr>)
      else s)"

definition create_cuda :: "build_config \<Rightarrow> plugin_state \<Rightarrow> plugin_state" where
  "create_cuda cfg s =
     (if OPENSUBDIV_HAS_CUDA cfg
      then (let (a, s') = new_controller OsdCudaComputeController (log_event CudaInit s)
            in s'\<lparr>g_cudaComputeController := Some a\<rparr>)
      else s)"

text \<open>Lines 463-464, after \<^verbatim>\<open>initCL\<close> has filled the context and the queue.\<close>

definition create_cl :: "nat \<Rightarrow> nat \<Rightarrow> plugin_state \<Rightarrow> plugin_state" where
  "create_cl ctx queue s =
     (let s0 = log_event (InitCL True) (s\<lparr>g_clContext := Some ctx, g_clQueue := Some queue\<rparr>);
          (a, s') = new_controller OsdCLComputeController s0
      in s'\<lparr>g_clComputeController := Some a\<rparr>)"

text \<open>
  Lines 467-484: the three registrations. A registration is in effect when the host
  reported success for it. The status of \<^verbatim>\<open>registerNode\<close> is overwritten and that of
  the buffer generator is dropped: the function returns the status of the last one.
\<close>

definition register_all :: "init_env \<Rightarrow> plugin_state \<Rightarrow> MStatus \<times> plugin_state" where
  "register_all env s =
     (let s1 = s\<lparr>nodeRegistered := nodeRegistered s \<or> registerNode env = kSuccess\<rparr>;
          s2 = s1\<lparr>vertexBufferGeneratorRegistered :=
                    vertexBufferGeneratorRegistered s1 \<or> registerVertexBufferGenerator env = kSuccess\<rparr>;
          s3 = s2\<lparr>shaderOverrideCreatorRegistered :=
                    shaderOverrideCreatorRegistered s2 \<or> registerShaderOverrideCreator env = kSuccess\<rparr>
      in (registerShaderOverrideCreator env, s3))"

text \<open>\<^verbatim>\<open>initializePlugin\<close>, lines 431-485.\<close>

definition initializePlugin :: "build_config \<Rightarrow> init_env \<Rightarrow> plugin_state \<Rightarrow> MStatus \<times> plugin_state" where
  "initializePlugin cfg env s =
     (let s0 = (if APPLE cfg then s else log_event GlewInit s);
          s1 = create_cpu s0;
          s2 = create_omp cfg s1;
          s3 = create_cuda cfg s2
      in if OPENSUBDIV_HAS_OPENCL cfg
         then (case initCL env of
                 None \<Rightarrow>
                   (kFailure,
                    log_event (DisplayError ''Cannot initialize OpenCL'') (log_event (InitCL False) s3))
               | Some (ctx, queue) \<Rightarrow> register_all env (create_cl ctx queue s3))
         else register_all env s3)"

text \<open>\<^verbatim>\<open>uninitializePlugin\<close>, lines 487-517.\<close>

definition deregister_all :: "plugin_state \<Rightarrow> plugin_state" where
  "deregister_all s =
     s\<lparr>nodeRegistered := False, vertexBufferGeneratorRegistered := False,
       shaderOverrideCreatorRegistered := False\<rparr>"

definition delete_if :: "bool \<Rightarrow> (plugin_state \<Rightarrow> addr option) \<Rightarrow> plugin_state \<Rightarrow> mem_error + plugin_state" where
  "delete_if compiled global s = (if compiled then delete_controller (global s) s else Inr s)"

definition uninitializePlugin :: "build_config \<Rightarrow> plugin_state \<Rightarrow> mem_error + (MStatus \<times> plugin_state)" where
  "uninitializePlugin cfg s =
     (case delete_controller (g_cpuComputeController (deregister_all s)) (deregister_all s) of
        Inl e \<Rightarrow> Inl e
      | Inr s1 \<Rightarrow>
     (case delete_if (OPENSUBDIV_HAS_OPENMP cfg) g_ompComputeController s1 of
        Inl e \<Rightarrow> Inl e
      | Inr s2 \<Rightarrow>
     (case delete_if (OPENSUBDIV_HAS_CUDA cfg) g_cudaComputeController s2 of
        Inl e \<Rightarrow> Inl e
      | Inr s3 \<Rightarrow>
     (case delete_if (OPENSUBDIV_HAS_OPENCL cfg) g_clComputeController s3 of
        Inl e \<Rightarrow> Inl e
      | Inr s4 \<Rightarrow> Inr (kSuccess, s4)))))"

text \<open>The controllers a trace creates and the ones it deletes, each in order.\<close>

fun acquired :: "event list \<Rightarrow> (controller \<times> addr) list" where
  "acquired [] = []"
| "acquired (New k a # es) = (k, a) # acquired es"
| "acquired (e # es) = acquired es"

fun released :: "event list \<Rightarrow> (controller \<times> addr) list" where
  "released [] = []"
| "released (Delete k a # es) = (k, a) # released es"
| "released (e # es) = released es"

text \<open>
  What \<^verbatim>\<open>uninitializePlugin\<close> leaves behind: the controllers deleted so far, in order,
  and the objects still live.
\<close>

definition release_order :: "build_config \<Rightarrow> plugin_state \<Rightarrow> mem_error + (controller \<times> addr) list" where
  "release_order cfg s =
     (case uninitializePlugin cfg s of
        Inl e \<Rightarrow> Inl e
      | Inr (status, s') \<Rightarrow> Inr (released (trace s')))"

definition live_after :: "build_config \<Rightarrow> plugin_state \<Rightarrow> mem_error + (addr \<times> controller) list" where
  "live_after cfg s =
     (case uninitializePlugin cfg s of
        Inl e \<Rightarrow> Inl e
      | Inr (status, s') \<Rightarrow> Inr (heap s'))"

text \<open>
  The controllers the build compiles in, in the order of the source; the OpenCL one only
  when \<^verbatim>\<open>initCL\<close> succeeds.
\<close>

definition compiled_in :: "build_config \<Rightarrow> init_env \<Rightarrow> controller list" where
  "compiled_in cfg env =
     [OsdCpuComputeController]
     @ (if OPENSUBDIV_HAS_OPENMP cfg then [OsdOmpComputeController] else [])
     @ (if OPENSUBDIV_HAS_CUDA cfg then [OsdCudaComputeController] else [])
     @ (if OPENSUBDIV_HAS_OPENCL cfg \<and> initCL env \<noteq> None then [OsdCLComputeController] else [])"

section \<open>The draw call\<close>

text \<open>
  A render item carries the pointer to its mesh data (\<^verbatim>\<open>customData()\<close>, null when the
  item has none) and its geometry, a list of vertex buffers with the names of their
  descriptors. The pointer \<^verbatim>\<open>renderItem->geometry()\<close> itself is taken to be valid.
\<close>

record vertex_buffer =
  vb_addr :: addr
  vb_descriptor_name :: string

record MRenderItem =
  customData :: "addr option"
  geometry :: "vertex_buffer list"

text \<open>
  What \<^verbatim>\<open>draw\<close> does is a sequence of calls into code that is not in this file: the
  state manager, \<^verbatim>\<open>OsdMeshData\<close> and the shader. The model records each call with its
  arguments, in order.
\<close>

datatype call =
    SetDepthStencilState
  | SetBlendState
  | RebuildHbrMeshIfNeeded addr "addr option"
  | Prepare addr
  | UpdateGeometry addr "addr option"
  | ShaderDraw addr addr

datatype draw_error = NullShader

text \<open>Lines 304-314: the last vertex buffer named \<^verbatim>\<open>osdPosition\<close>, or the null pointer.\<close>

fun find_position :: "vertex_buffer list \<Rightarrow> addr option \<Rightarrow> addr option" where
  "find_position [] position = position"
| "find_position (vb # vbs) position =
     find_position vbs (if vb_descriptor_name vb = ''osdPosition'' then Some (vb_addr vb) else position)"

text \<open>
  The loop of lines 291-325. An item without data ends the whole call with \<^verbatim>\<open>false\<close>.
  \<^verbatim>\<open>_shader\<close> is passed on as it is to \<^verbatim>\<open>rebuildHbrMeshIfNeeded\<close> and dereferenced
  by \<^verbatim>\<open>_shader->draw\<close>, with no test: a null \<^verbatim>\<open>_shader\<close> is an error there.
\<close>

fun draw_items :: "addr option \<Rightarrow> MRenderItem list \<Rightarrow> call list \<Rightarrow> draw_error + (bool \<times> call list)" where
  "draw_items sh [] calls = Inr (True, calls)"
| "draw_items sh (renderItem # rest) calls =
     (case customData renderItem of
        None \<Rightarrow> Inr (False, calls)
      | Some data \<Rightarrow>
          (let calls1 = calls @ [RebuildHbrMeshIfNeeded data sh];
               position = find_position (geometry renderItem) None;
               calls2 = calls1 @ [Prepare data];
               calls3 = calls2 @ [UpdateGeometry data position]
           in case sh of
                None \<Rightarrow> Inl NullShader
              | Some s \<Rightarrow> draw_items sh rest (calls3 @ [ShaderDraw s data])))"

text \<open>
  \<^verbatim>\<open>draw(context, renderItemList)\<close>, lines 262-328: the depth and blend states are set
  (they are acquired once and kept in function-local statics that nothing else reads),
  then the loop runs.
\<close>

definition draw :: "OpenSubdivShaderOverride \<Rightarrow> MRenderItem list \<Rightarrow> call list \<Rightarrow> draw_error + (bool \<times> call list)" where
  "draw ov renderItemList calls =
     draw_items (shader ov) renderItemList (calls @ [SetDepthStencilState, SetBlendState])"

text \<open>
  The four calls for one item with data, in the order of the source: rebuild the HBR mesh
  if needed, prepare, update the geometry, draw.
\<close>

definition item_calls :: "addr \<Rightarrow> MRenderItem \<Rightarrow> call list" where
  "item_calls s renderItem =
     (case customData renderItem of
        None \<Rightarrow> []
      | Some data \<Rightarrow>
          [RebuildHbrMeshIfNeeded data (Some s), Prepare data,
           UpdateGeometry data (find_position (geometry renderItem) None), ShaderDraw s data])"

definition has_data :: "MRenderItem \<Rightarrow> bool" where
  "has_data renderItem = (customData renderItem \<noteq> None)"



section \<open>The position buffer generator\<close>

text \<open>
  \<^verbatim>\<open>MFloatPoint\<close> and the two calls \<^verbatim>\<open>createVertexStream\<close> makes on the mesh function
  set. The coordinates are only copied, so their type is a parameter. \<^verbatim>\<open>numVertices()\<close>
  is a C \<^verbatim>\<open>int\<close>.
\<close>

record 'f MFloatPoint =
  pt_x :: 'f
  pt_y :: 'f
  pt_z :: 'f
  pt_w :: 'f

record 'f MFnMesh =
  numVertices :: int
  getPoints :: "'f MFloatPoint list"

text \<open>
  The vertex buffer: the dimension of its descriptor (floats per vertex), the vertex count
  it was last acquired for, and the committed contents. A float never written is \<open>None\<close>.
\<close>

record 'f MVertexBuffer =
  vb_dimension :: nat
  vb_vertexCount :: nat
  vb_committed :: "'f option list option"

datatype stream_error = PointIndexOutOfRange nat | BufferOverrun nat

text \<open>\<^verbatim>\<open>acquire(size)\<close> takes an \<^verbatim>\<open>unsigned int\<close>: the \<^verbatim>\<open>int\<close> argument is converted.\<close>

definition acquire_count :: "int \<Rightarrow> nat" where
  "acquire_count nVertices = nat (nVertices mod 2 ^ 32)"

definition acquire :: "nat \<Rightarrow> 'f MVertexBuffer \<Rightarrow> 'f option list" where
  "acquire n vertexBuffer = replicate (n * vb_dimension vertexBuffer) None"

text \<open>
  The loop of lines 413-417, with \<open>dst\<close> the offset of the write pointer in the buffer.
  The array of points and the buffer are read and written without a bounds check in the
  source: an index outside either is an error of the model.
\<close>

function fill_loop ::
  "nat \<Rightarrow> int \<Rightarrow> 'f MFloatPoint list \<Rightarrow> nat \<Rightarrow> 'f option list \<Rightarrow> stream_error + 'f option list" where
  "fill_loop i nVertices points dst buffer =
     (if int i < nVertices then
        (if i < length points then
           (if dst + 2 < length buffer then
              fill_loop (Suc i) nVertices points (dst + 3)
                (buffer[dst := Some (pt_x (points ! i)),
                        dst + 1 := Some (pt_y (points ! i)),
                        dst + 2 := Some (pt_z (points ! i))])
            else Inl (BufferOverrun dst))
         else Inl (PointIndexOutOfRange i))
      else Inr buffer)"
  by pat_completeness auto
termination
  by (relation "measure (\<lambda>(i, nVertices, points, dst, buffer). nat (nVertices - int i))") auto

declare fill_loop.simps [simp del]

text \<open>\<^verbatim>\<open>OsdBufferGenerator::createVertexStream\<close>, lines 379-419.\<close>

definition createVertexStream :: "'f MFnMesh \<Rightarrow> 'f MVertexBuffer \<Rightarrow> stream_error + 'f MVertexBuffer" where
  "createVertexStream meshFn vertexBuffer =
     (let nVertices = numVertices meshFn;
          points = getPoints meshFn;
          buffer = acquire (acquire_count nVertices) vertexBuffer
      in case fill_loop 0 nVertices points 0 buffer of
           Inl e \<Rightarrow> Inl e
         | Inr filled \<Rightarrow>
             Inr (vertexBuffer\<lparr>vb_vertexCount := acquire_count nVertices,
                               vb_committed := Some filled\<rparr>))"

section \<open>Example inputs\<close>

text \<open>
  A host in which \<^verbatim>\<open>kAttributeEval\<close> is bit \<open>0x04\<close> (\<open>0x08\<close> is then another
  kind of message), the shape node \<open>Obj 1\<close> has the attributes \<^verbatim>\<open>outMesh\<close> and
  \<^verbatim>\<open>inMesh\<close>, and \<open>Obj 2\<close> is a shader node.
\<close>

definition example_maya :: maya where
  "example_maya =
     \<lparr>kAttributeEval = 4,
      attribute = (\<lambda>n name. if n = Obj 1 \<and> name = ''outMesh'' then Obj 10
                              else if n = Obj 1 \<and> name = ''inMesh'' then Obj 11 else kNullObj),
      extendToShape = (\<lambda>p. p),
      getHwShaderNodePtr = (\<lambda>n. if n = Obj 2 then Some 3 else None)\<rparr>"

definition example_mesh :: OsdMeshData where
  "example_mesh =
     \<lparr>mesh_dagPath = [Obj 0, Obj 1], topologyDirty = False, attributesDirty = False,
      buffersStaleForFrame = False\<rparr>"

definition example_store :: store where
  "example_store = Map.empty(5 \<mapsto> example_mesh)"

definition outMesh_plug :: MPlug where
  "outMesh_plug = \<lparr>plug_node = Obj 1, plug_attribute = Obj 10\<rparr>"

definition inMesh_plug :: MPlug where
  "inMesh_plug = \<lparr>plug_node = Obj 1, plug_attribute = Obj 11\<rparr>"

definition example_host :: MMessage where
  "example_host = \<lparr>callbacks = [\<lparr>cb_id = 0, cb_node = Obj 9, cb_clientData = 8\<rparr>], next_id = 1\<rparr>"

definition example_requests :: "(MDagPath \<times> addr \<times> MStatus) list" where
  "example_requests =
     [([Obj 0, Obj 1], 5, kSuccess), ([Obj 0, Obj 2], 6, kFailure), ([Obj 0, Obj 1], 7, kSuccess)]"

definition cpu_only_build :: build_config where
  "cpu_only_build =
     \<lparr>APPLE = False, OPENSUBDIV_HAS_OPENMP = False, OPENSUBDIV_HAS_OPENCL = False,
      OPENSUBDIV_HAS_CUDA = False\<rparr>"

definition openmp_build :: build_config where
  "openmp_build =
     \<lparr>APPLE = False, OPENSUBDIV_HAS_OPENMP = True, OPENSUBDIV_HAS_OPENCL = False,
      OPENSUBDIV_HAS_CUDA = False\<rparr>"

definition opencl_build :: build_config where
  "opencl_build =
     \<lparr>APPLE = False, OPENSUBDIV_HAS_OPENMP = False, OPENSUBDIV_HAS_OPENCL = True,
      OPENSUBDIV_HAS_CUDA = False\<rparr>"

definition openmp_opencl_build :: build_config where
  "openmp_opencl_build =
     \<lparr>APPLE = False, OPENSUBDIV_HAS_OPENMP = True, OPENSUBDIV_HAS_OPENCL = True,
      OPENSUBDIV_HAS_CUDA = False\<rparr>"

definition host_accepts :: init_env where
  "host_accepts =
     \<lparr>initCL = Some (100, 101), registerNode = kSuccess,
      registerVertexBufferGenerator = kSuccess, registerShaderOverrideCreator = kSuccess\<rparr>"

definition opencl_unavailable :: init_env where
  "opencl_unavailable =
     \<lparr>initCL = None, registerNode = kSuccess,
      registerVertexBufferGenerator = kSuccess, registerShaderOverrideCreator = kSuccess\<rparr>"

definition example_override :: OpenSubdivShaderOverride where
  "example_override = updateDG example_maya (Obj 2) OpenSubdivShaderOverride_ctor"

definition item_without_data :: MRenderItem where
  "item_without_data = \<lparr>customData = None, geometry = []\<rparr>"

definition item_with_data :: MRenderItem where
  "item_with_data =
     \<lparr>customData = Some 5,
      geometry = [\<lparr>vb_addr = 20, vb_descriptor_name = ''position''\<rparr>,
                  \<lparr>vb_addr = 21, vb_descriptor_name = ''osdPosition''\<rparr>]\<rparr>"

definition example_meshFn :: "int MFnMesh" where
  "example_meshFn =
     \<lparr>numVertices = 2,
      getPoints = [\<lparr>pt_x = 1, pt_y = 2, pt_z = 3, pt_w = 1\<rparr>,
                   \<lparr>pt_x = 4, pt_y = 5, pt_z = 6, pt_w = 1\<rparr>]\<rparr>"

definition example_vertexBuffer :: "int MVertexBuffer" where
  "example_vertexBuffer = \<lparr>vb_dimension = 3, vb_vertexCount = 0, vb_committed = None\<rparr>"

section \<open>Properties of the change callback\<close>

lemma example_outMesh_evaluated:
  "outMesh_evaluated example_maya 4 outMesh_plug example_mesh"
  by (simp add: outMesh_evaluated_def example_maya_def outMesh_plug_def example_mesh_def
      plug_eq_def getDagPath_def MDagPath_node_def)

lemma example_store_live: "example_store 5 = Some example_mesh"
  by (simp add: example_store_def)

text \<open>
  C9. For a callback whose client data is a live mesh data object, the callback returns
  normally, and afterwards the topology-dirty flag of that object is set exactly when it
  was set before or the message includes \<^verbatim>\<open>kAttributeEval\<close> and the plug is the
  \<^verbatim>\<open>outMesh\<close> attribute of the object's node. For every other message and plug the
  store is returned as it was; in every case the other fields of the object and all other
  objects are unchanged.
\<close>

theorem attrChangedCB_dirty_iff:
  assumes "st clientData = Some meshData"
  shows "\<exists>st' d'. attrChangedCB M msg plug otherPlug clientData st = Inr st'
      \<and> st' clientData = Some d'
      \<and> (topologyDirty d' \<longleftrightarrow> topologyDirty meshData \<or> outMesh_evaluated M msg plug meshData)
      \<and> (\<not> outMesh_evaluated M msg plug meshData \<longrightarrow> st' = st)
      \<and> d'\<lparr>topologyDirty := topologyDirty meshData\<rparr> = meshData
      \<and> (\<forall>a. a \<noteq> clientData \<longrightarrow> st' a = st a)"
  using assms
  by (auto simp: attrChangedCB_def outMesh_evaluated_def setMeshTopoDirty_def)

text \<open>
  The theorem at the example host: an evaluation of \<^verbatim>\<open>outMesh\<close> sets the flag of a
  clean mesh.
\<close>

theorem attrChangedCB_dirty_iff_witness:
  "example_store 5 = Some example_mesh \<and> \<not> topologyDirty example_mesh
   \<and> (\<exists>st' d'. attrChangedCB example_maya 4 outMesh_plug inMesh_plug 5 example_store = Inr st'
        \<and> st' 5 = Some d' \<and> topologyDirty d')"
proof -
  have clean: "\<not> topologyDirty example_mesh"
    by (simp add: example_mesh_def)
  from attrChangedCB_dirty_iff
         [of example_store 5 example_mesh example_maya 4 outMesh_plug inMesh_plug,
          OF example_store_live]
       example_outMesh_evaluated
  have "\<exists>st' d'. attrChangedCB example_maya 4 outMesh_plug inMesh_plug 5 example_store = Inr st'
        \<and> st' 5 = Some d' \<and> topologyDirty d'"
    by blast
  with example_store_live clean show ?thesis by blast
qed

text \<open>
  C1, as stated, fails. On the watched shape node, an evaluation of another attribute
  (the input mesh \<^verbatim>\<open>inMesh\<close>), a message of another kind on \<^verbatim>\<open>outMesh\<close> itself
  (\<open>0x08\<close>, an attribute set in Maya's enumeration) and a message of another kind on
  \<^verbatim>\<open>inMesh\<close> (\<open>0x01\<close>, a connection made) all leave the store as it was, with the
  topology-dirty flag clear: ignoring is the default of the callback, not marking dirty.
\<close>

theorem attrChangedCB_ignores_other_notifications:
  "attrChangedCB example_maya 4 inMesh_plug outMesh_plug 5 example_store = Inr example_store
   \<and> attrChangedCB example_maya 8 outMesh_plug inMesh_plug 5 example_store = Inr example_store
   \<and> attrChangedCB example_maya 1 inMesh_plug outMesh_plug 5 example_store = Inr example_store
   \<and> map_option topologyDirty (example_store 5) = Some False"
  by (simp add: attrChangedCB_def example_maya_def inMesh_plug_def outMesh_plug_def
      example_store_def example_mesh_def plug_eq_def getDagPath_def MDagPath_node_def)

text \<open>
  C1, amended. For a callback whose client data is a live mesh data object: every
  notification whose message includes \<^verbatim>\<open>kAttributeEval\<close> and whose plug is the
  \<^verbatim>\<open>outMesh\<close> attribute of the mesh data's node sets the topology-dirty flag, whatever
  the other bits of the message, the other plug and the flag before (the callback does
  not try to tell whether the topology really changed); every other notification is
  ignored, the store returned exactly as it was. Ignoring is the default.
\<close>

theorem attrChangedCB_whitelist:
  assumes "st clientData = Some meshData"
  shows "attrChangedCB M msg plug otherPlug clientData st =
           Inr (if outMesh_evaluated M msg plug meshData
                then st(clientData \<mapsto> meshData\<lparr>topologyDirty := True\<rparr>)
                else st)"
  using assms by (simp add: attrChangedCB_def outMesh_evaluated_def setMeshTopoDirty_def)

text \<open>
  Both branches at the example host: an evaluation of \<^verbatim>\<open>outMesh\<close> sets the flag, an
  evaluation of \<^verbatim>\<open>inMesh\<close> leaves the store as it was.
\<close>

theorem attrChangedCB_whitelist_witness:
  "example_store 5 = Some example_mesh
   \<and> outMesh_evaluated example_maya 4 outMesh_plug example_mesh
   \<and> \<not> outMesh_evaluated example_maya 4 inMesh_plug example_mesh
   \<and> attrChangedCB example_maya 4 outMesh_plug inMesh_plug 5 example_store =
       Inr (example_store(5 \<mapsto> example_mesh\<lparr>topologyDirty := True\<rparr>))
   \<and> attrChangedCB example_maya 4 inMesh_plug outMesh_plug 5 example_store = Inr example_store"
proof -
  have other: "\<not> outMesh_evaluated example_maya 4 inMesh_plug example_mesh"
    by (simp add: outMesh_evaluated_def example_maya_def inMesh_plug_def example_mesh_def
        plug_eq_def getDagPath_def MDagPath_node_def)
  have marked: "attrChangedCB example_maya 4 outMesh_plug inMesh_plug 5 example_store =
       Inr (example_store(5 \<mapsto> example_mesh\<lparr>topologyDirty := True\<rparr>))"
    using attrChangedCB_whitelist
            [of example_store 5 example_mesh example_maya 4 outMesh_plug inMesh_plug,
             OF example_store_live]
      example_outMesh_evaluated
    by simp
  have ignored: "attrChangedCB example_maya 4 inMesh_plug outMesh_plug 5 example_store = Inr example_store"
    using attrChangedCB_whitelist
            [of example_store 5 example_mesh example_maya 4 inMesh_plug outMesh_plug,
             OF example_store_live]
      other
    by simp
  from example_store_live example_outMesh_evaluated other marked ignored
  show ?thesis by blast
qed

section \<open>Properties of the subscriptions\<close>

lemma addTopologyChangedCallbacks_accepted:
  "addTopologyChangedCallbacks M p d kSuccess (ov, h) =
     (ov\<lparr>callbackIds := callbackIds ov @ [next_id h]\<rparr>,
      h\<lparr>callbacks := callbacks h @
            [\<lparr>cb_id = next_id h, cb_node = MDagPath_node (extendToShape M p), cb_clientData = d\<rparr>],
        next_id := Suc (next_id h)\<rparr>)"
  by (simp add: addTopologyChangedCallbacks_def addAttributeChangedCallback_def)

lemma addTopologyChangedCallbacks_refused:
  "reported \<noteq> kSuccess \<Longrightarrow> addTopologyChangedCallbacks M p d reported (ov, h) = (ov, h)"
  by (simp add: addTopologyChangedCallbacks_def addAttributeChangedCallback_def)

text \<open>
  The table after a run of registrations is the table before followed by one new entry
  per accepted registration; the override has recorded the ids of exactly these entries,
  and each of them is at least the first id that was free.
\<close>

lemma subscribe_all_shape:
  "\<exists>new. callbacks (snd (subscribe_all M reqs (ov, h))) = callbacks h @ new
        \<and> callbackIds (fst (subscribe_all M reqs (ov, h))) = callbackIds ov @ map cb_id new
        \<and> list_all (\<lambda>e. next_id h \<le> cb_id e) new
        \<and> map cb_clientData new = map (\<lambda>r. fst (snd r)) (accepted reqs)"
proof (induction reqs arbitrary: ov h)
  case Nil
  show ?case by (simp add: accepted_def)
next
  case (Cons r reqs)
  obtain p d reported where r: "r = (p, d, reported)" by (cases r) auto
  show ?case
  proof (cases "reported = kSuccess")
    case True
    let ?e = "\<lparr>cb_id = next_id h, cb_node = MDagPath_node (extendToShape M p), cb_clientData = d\<rparr>"
    let ?ov = "ov\<lparr>callbackIds := callbackIds ov @ [next_id h]\<rparr>"
    let ?h = "h\<lparr>callbacks := callbacks h @ [?e], next_id := Suc (next_id h)\<rparr>"
    from Cons.IH [of ?ov ?h] obtain new where new:
      "callbacks (snd (subscribe_all M reqs (?ov, ?h))) = callbacks ?h @ new"
      "callbackIds (fst (subscribe_all M reqs (?ov, ?h))) = callbackIds ?ov @ map cb_id new"
      "list_all (\<lambda>e. next_id ?h \<le> cb_id e) new"
      "map cb_clientData new = map (\<lambda>r. fst (snd r)) (accepted reqs)"
      by blast
    have step: "subscribe_all M (r # reqs) (ov, h) = subscribe_all M reqs (?ov, ?h)"
      using True r by (simp add: addTopologyChangedCallbacks_accepted)
    have "list_all (\<lambda>e. next_id h \<le> cb_id e) (?e # new)"
      using new(3) by (auto simp: list_all_iff)
    moreover have "map cb_clientData (?e # new) = map (\<lambda>r. fst (snd r)) (accepted (r # reqs))"
      using new(4) True r by (simp add: accepted_def)
    ultimately show ?thesis
      using new(1,2) step by (intro exI [of _ "?e # new"]) simp
  next
    case False
    have step: "subscribe_all M (r # reqs) (ov, h) = subscribe_all M reqs (ov, h)"
      using False r by (simp add: addTopologyChangedCallbacks_refused)
    have "accepted (r # reqs) = accepted reqs"
      using False r by (simp add: accepted_def)
    with Cons.IH [of ov h] step show ?thesis by simp
  qed
qed

lemma filter_foreign:
  assumes "list_all (\<lambda>e. cb_id e < n) old" and "list_all (\<lambda>e. n \<le> cb_id e) new"
  shows "filter (\<lambda>e. cb_id e \<notin> cb_id ` set new) (old @ new) = old"
proof -
  have "filter (\<lambda>e. cb_id e \<notin> cb_id ` set new) old = old"
    using assms by (fastforce simp: list_all_iff filter_id_conv)
  moreover have "filter (\<lambda>e. cb_id e \<notin> cb_id ` set new) new = []"
    by (auto simp: filter_empty_conv)
  ultimately show ?thesis by simp
qed

text \<open>
  C7. An override is constructed on a host whose ids are fresh and makes any sequence of
  calls of \<^verbatim>\<open>addTopologyChangedCallbacks\<close>, each accepted or refused by the host. Then
  it has recorded one id per accepted registration and no other, the recorded ids are the
  ids of the entries it added to the host's table (with the mesh data it registered), and
  its destructor leaves the table exactly as it was before the override existed: no entry
  with a recorded id remains, so a later notification calls the callbacks the host had
  before and nothing of this override.
\<close>

theorem teardown_releases_all_subscriptions:
  assumes fresh: "host_ids_fresh h0"
    and run: "subscribe_all M reqs (OpenSubdivShaderOverride_ctor, h0) = (ov, h)"
  shows "length (callbackIds ov) = length (accepted reqs)
       \<and> (\<exists>new. callbacks h = callbacks h0 @ new \<and> map cb_id new = callbackIds ov
                \<and> map cb_clientData new = map (\<lambda>r. fst (snd r)) (accepted reqs))
       \<and> callbacks (OpenSubdivShaderOverride_dtor ov h) = callbacks h0
       \<and> list_all (\<lambda>e. cb_id e \<notin> set (callbackIds ov)) (callbacks (OpenSubdivShaderOverride_dtor ov h))
       \<and> deliver M (callbacks (OpenSubdivShaderOverride_dtor ov h)) n msg plug otherPlug st
           = deliver M (callbacks h0) n msg plug otherPlug st"
proof -
  from subscribe_all_shape [of M reqs OpenSubdivShaderOverride_ctor h0] run
  obtain new where new:
    "callbacks h = callbacks h0 @ new"
    "callbackIds ov = map cb_id new"
    "list_all (\<lambda>e. next_id h0 \<le> cb_id e) new"
    "map cb_clientData new = map (\<lambda>r. fst (snd r)) (accepted reqs)"
    by (auto simp: OpenSubdivShaderOverride_ctor_def)
  have len: "length (callbackIds ov) = length (accepted reqs)"
    using new(2,4) by (metis length_map)
  have gone: "callbacks (OpenSubdivShaderOverride_dtor ov h) = callbacks h0"
    using filter_foreign [OF _ new(3), of "callbacks h0"] fresh new(1,2)
    by (simp add: OpenSubdivShaderOverride_dtor_def removeCallbacks_def host_ids_fresh_def)
  have none: "list_all (\<lambda>e. cb_id e \<notin> set (callbackIds ov)) (callbacks (OpenSubdivShaderOverride_dtor ov h))"
    by (simp add: OpenSubdivShaderOverride_dtor_def removeCallbacks_def list_all_iff)
  from len new gone none show ?thesis by auto
qed

text \<open>
  The theorem on a host that already holds the callback 0 of someone else: of three
  registrations the second is refused, the ids 1 and 2 are recorded, and after the
  destructor the table holds callback 0 alone again.
\<close>

theorem teardown_releases_all_subscriptions_witness:
  "host_ids_fresh example_host
   \<and> callbackIds (fst (subscribe_all example_maya example_requests (OpenSubdivShaderOverride_ctor, example_host))) = [1, 2]
   \<and> map cb_id (callbacks (snd (subscribe_all example_maya example_requests (OpenSubdivShaderOverride_ctor, example_host)))) = [0, 1, 2]
   \<and> callbacks (OpenSubdivShaderOverride_dtor
        (fst (subscribe_all example_maya example_requests (OpenSubdivShaderOverride_ctor, example_host)))
        (snd (subscribe_all example_maya example_requests (OpenSubdivShaderOverride_ctor, example_host))))
      = callbacks example_host"
proof -
  let ?run = "subscribe_all example_maya example_requests (OpenSubdivShaderOverride_ctor, example_host)"
  have fresh: "host_ids_fresh example_host"
    by (simp add: host_ids_fresh_def example_host_def)
  have run: "?run = (fst ?run, snd ?run)"
    by simp
  have ids: "callbackIds (fst ?run) = [1, 2]"
    by (simp add: example_requests_def example_host_def OpenSubdivShaderOverride_ctor_def
        addTopologyChangedCallbacks_def addAttributeChangedCallback_def)
  have tab: "map cb_id (callbacks (snd ?run)) = [0, 1, 2]"
    by (simp add: example_requests_def example_host_def OpenSubdivShaderOverride_ctor_def
        addTopologyChangedCallbacks_def addAttributeChangedCallback_def)
  from teardown_releases_all_subscriptions [OF fresh run]
  have "callbacks (OpenSubdivShaderOverride_dtor (fst ?run) (snd ?run)) = callbacks example_host"
    by blast
  with fresh ids tab show ?thesis by blast
qed

section \<open>Properties of plugin initialisation and shutdown\<close>

text \<open>
  C2, as stated, fails. In a build with OpenMP, a successful \<^verbatim>\<open>initializePlugin\<close> leaves
  two controller instances live at once, the CPU one and the OpenMP one, each held by its
  global pointer.
\<close>

theorem openmp_build_has_two_controllers:
  "fst (initializePlugin openmp_build host_accepts process_start) = kSuccess
   \<and> heap (snd (initializePlugin openmp_build host_accepts process_start))
       = [(1, OsdCpuComputeController), (2, OsdOmpComputeController)]
   \<and> g_cpuComputeController (snd (initializePlugin openmp_build host_accepts process_start)) = Some 1
   \<and> g_ompComputeController (snd (initializePlugin openmp_build host_accepts process_start)) = Some 2"
  by (simp add: initializePlugin_def create_cpu_def create_omp_def create_cuda_def create_cl_def
      register_all_def new_controller_def log_event_def
      openmp_build_def host_accepts_def process_start_def Let_def)

text \<open>
  C2, amended. At process start \<^verbatim>\<open>initializePlugin\<close> creates one controller instance for
  every backend compiled into the build: the CPU one always, the OpenMP, CUDA and OpenCL
  ones under their preprocessor symbols (the OpenCL one only when \<^verbatim>\<open>initCL\<close> succeeds).
  They are distinct objects, all live together when the function returns; exactly one
  instance is live only when no optional backend was created. Nothing is probed and
  nothing is selected.
\<close>

theorem initializePlugin_creates_every_compiled_controller:
  "map snd (heap (snd (initializePlugin cfg env process_start))) = compiled_in cfg env
   \<and> distinct (map fst (heap (snd (initializePlugin cfg env process_start))))
   \<and> (length (heap (snd (initializePlugin cfg env process_start))) = 1
        \<longleftrightarrow> compiled_in cfg env = [OsdCpuComputeController])"
  by (simp add: initializePlugin_def create_cpu_def create_omp_def create_cuda_def create_cl_def
      register_all_def new_controller_def log_event_def
      compiled_in_def process_start_def Let_def split: option.splits prod.splits)

theorem initializePlugin_creates_every_compiled_controller_witness:
  "map snd (heap (snd (initializePlugin cpu_only_build host_accepts process_start)))
     = [OsdCpuComputeController]
   \<and> length (heap (snd (initializePlugin cpu_only_build host_accepts process_start))) = 1"
  using initializePlugin_creates_every_compiled_controller [of cpu_only_build host_accepts]
  by (simp add: compiled_in_def cpu_only_build_def)




text \<open>
  C4, as stated, fails. When initialisation fails because OpenCL is unavailable, the CPU
  controller created before the test is still allocated, and its global still points to
  it, when \<^verbatim>\<open>initializePlugin\<close> returns.
\<close>

theorem failed_initialization_leaves_controller:
  "fst (initializePlugin opencl_build opencl_unavailable process_start) = kFailure
   \<and> heap (snd (initializePlugin opencl_build opencl_unavailable process_start))
       = [(1, OsdCpuComputeController)]
   \<and> g_cpuComputeController (snd (initializePlugin opencl_build opencl_unavailable process_start))
       = Some 1"
  by (simp add: initializePlugin_def create_cpu_def create_omp_def create_cuda_def create_cl_def
      register_all_def new_controller_def log_event_def
      opencl_build_def opencl_unavailable_def process_start_def Let_def)

text \<open>
  C4, amended. When \<^verbatim>\<open>initializePlugin\<close> fails at its one early exit, OpenCL compiled in and
  not initialisable, it returns \<^verbatim>\<open>kFailure\<close> before any registration: the node, the
  buffer generator and the shader override are registered after the call exactly if they
  were before it.
\<close>

theorem opencl_failure_registers_nothing:
  assumes "OPENSUBDIV_HAS_OPENCL cfg" and "initCL env = None"
  shows "fst (initializePlugin cfg env s) = kFailure
       \<and> nodeRegistered (snd (initializePlugin cfg env s)) = nodeRegistered s
       \<and> vertexBufferGeneratorRegistered (snd (initializePlugin cfg env s))
           = vertexBufferGeneratorRegistered s
       \<and> shaderOverrideCreatorRegistered (snd (initializePlugin cfg env s))
           = shaderOverrideCreatorRegistered s"
  using assms
  by (simp add: initializePlugin_def create_cpu_def create_omp_def create_cuda_def create_cl_def
      register_all_def new_controller_def log_event_def
      Let_def split: prod.splits)

theorem opencl_failure_registers_nothing_witness:
  "OPENSUBDIV_HAS_OPENCL opencl_build \<and> initCL opencl_unavailable = None
   \<and> fst (initializePlugin opencl_build opencl_unavailable process_start) = kFailure
   \<and> \<not> nodeRegistered (snd (initializePlugin opencl_build opencl_unavailable process_start))
   \<and> \<not> vertexBufferGeneratorRegistered (snd (initializePlugin opencl_build opencl_unavailable process_start))
   \<and> \<not> shaderOverrideCreatorRegistered (snd (initializePlugin opencl_build opencl_unavailable process_start))"
proof -
  have cl: "OPENSUBDIV_HAS_OPENCL opencl_build"
    by (simp add: opencl_build_def)
  have fails: "initCL opencl_unavailable = None"
    by (simp add: opencl_unavailable_def)
  from opencl_failure_registers_nothing [OF cl fails, of process_start] cl fails
  show ?thesis by (simp add: process_start_def)
qed

text \<open>
  C8, as stated, fails. In a build with OpenMP the CPU controller is created first and
  the OpenMP controller second, and \<^verbatim>\<open>uninitializePlugin\<close> deletes the CPU controller
  first and the OpenMP controller second: the order of release is the order of
  acquisition, not its reverse.
\<close>

theorem controllers_released_in_creation_order_example:
  "acquired (trace (snd (initializePlugin openmp_build host_accepts process_start)))
     = [(OsdCpuComputeController, 1), (OsdOmpComputeController, 2)]
   \<and> release_order openmp_build (snd (initializePlugin openmp_build host_accepts process_start))
     = Inr [(OsdCpuComputeController, 1), (OsdOmpComputeController, 2)]
   \<and> release_order openmp_build (snd (initializePlugin openmp_build host_accepts process_start))
     \<noteq> Inr (rev (acquired (trace (snd (initializePlugin openmp_build host_accepts process_start)))))"
  by (simp add: release_order_def
      initializePlugin_def create_cpu_def create_omp_def create_cuda_def create_cl_def
      register_all_def new_controller_def log_event_def
      uninitializePlugin_def deregister_all_def delete_if_def delete_controller_def
      openmp_build_def host_accepts_def process_start_def Let_def)

text \<open>
  C8, amended. For every build and every answer of the environment, \<^verbatim>\<open>uninitializePlugin\<close>
  after \<^verbatim>\<open>initializePlugin\<close> (from process start) deletes exactly the controllers that
  were created, in the order in which they were created, also when initialisation stopped
  at the OpenCL failure; no controller is left allocated.
\<close>

theorem uninitializePlugin_release_order:
  "release_order cfg (snd (initializePlugin cfg env process_start))
     = Inr (acquired (trace (snd (initializePlugin cfg env process_start))))
   \<and> live_after cfg (snd (initializePlugin cfg env process_start)) = Inr []"
  by (cases "APPLE cfg"; cases "OPENSUBDIV_HAS_OPENMP cfg"; cases "OPENSUBDIV_HAS_CUDA cfg";
      cases "OPENSUBDIV_HAS_OPENCL cfg"; cases "initCL env")
    (simp_all add: release_order_def live_after_def
       initializePlugin_def create_cpu_def create_omp_def create_cuda_def create_cl_def
       register_all_def new_controller_def log_event_def
       uninitializePlugin_def deregister_all_def delete_if_def delete_controller_def
       process_start_def Let_def split: prod.splits)

theorem uninitializePlugin_release_order_witness:
  "release_order openmp_opencl_build (snd (initializePlugin openmp_opencl_build host_accepts process_start))
     = Inr [(OsdCpuComputeController, 1), (OsdOmpComputeController, 2), (OsdCLComputeController, 3)]
   \<and> live_after openmp_opencl_build (snd (initializePlugin openmp_opencl_build host_accepts process_start))
     = Inr []"
proof -
  have "acquired (trace (snd (initializePlugin openmp_opencl_build host_accepts process_start)))
          = [(OsdCpuComputeController, 1), (OsdOmpComputeController, 2), (OsdCLComputeController, 3)]"
    by (simp add: initializePlugin_def create_cpu_def create_omp_def create_cuda_def create_cl_def
      register_all_def new_controller_def log_event_def
        openmp_opencl_build_def host_accepts_def process_start_def Let_def)
  with uninitializePlugin_release_order [of openmp_opencl_build host_accepts]
  show ?thesis by simp
qed

section \<open>Properties of the draw call\<close>

lemma draw_items_with_shader:
  "draw_items (Some s) items calls =
     Inr (list_all has_data items, calls @ concat (map (item_calls s) (takeWhile has_data items)))"
proof (induction items arbitrary: calls)
  case Nil
  show ?case by simp
next
  case (Cons renderItem rest)
  show ?case
  proof (cases "customData renderItem")
    case None
    then show ?thesis by (simp add: has_data_def)
  next
    case (Some data)
    then show ?thesis
      by (simp add: Cons.IH has_data_def item_calls_def)
  qed
qed




lemma example_override_shader: "shader example_override = Some 3"
  by (simp add: example_override_def updateDG_def example_maya_def OpenSubdivShaderOverride_ctor_def)

text \<open>
  C5, as stated, fails. A draw request whose first render item has no data returns
  \<^verbatim>\<open>false\<close> at once: the second item, which has data, gets none of the four stages.
\<close>

theorem draw_stops_at_missing_data:
  "draw example_override [item_without_data, item_with_data] []
     = Inr (False, [SetDepthStencilState, SetBlendState])
   \<and> customData item_with_data = Some 5"
  by (simp add: draw_def item_without_data_def item_with_data_def)

text \<open>
  C5, amended. On every draw request of an override whose shader pointer is set, each
  render item before the first one without data gets its four calls in the fixed order
  \<^verbatim>\<open>rebuildHbrMeshIfNeeded\<close>, \<^verbatim>\<open>prepare\<close>, \<^verbatim>\<open>updateGeometry\<close>, \<^verbatim>\<open>_shader->draw\<close>,
  item after item, with nothing between and none left out. The first item without data
  ends the request: it and the items after it get no call, and the result is \<^verbatim>\<open>true\<close>
  exactly when every item had data.
\<close>

theorem draw_stage_order:
  assumes "shader ov = Some s"
  shows "draw ov items calls =
     Inr (list_all has_data items,
          calls @ [SetDepthStencilState, SetBlendState]
            @ concat (map (item_calls s) (takeWhile has_data items)))"
  using assms by (simp add: draw_def draw_items_with_shader)

theorem draw_stage_order_witness:
  "shader example_override = Some 3
   \<and> draw example_override [item_with_data, item_without_data, item_with_data] []
       = Inr (False,
              [SetDepthStencilState, SetBlendState,
               RebuildHbrMeshIfNeeded 5 (Some 3), Prepare 5, UpdateGeometry 5 (Some 21),
               ShaderDraw 3 5])"
  using draw_stage_order [OF example_override_shader,
          of "[item_with_data, item_without_data, item_with_data]" "[]"]
    example_override_shader
  by (simp add: has_data_def item_calls_def item_without_data_def item_with_data_def)




section \<open>Properties of the position buffer generator\<close>

text \<open>
  The loop, started at point \<open>i\<close> with the write pointer at float \<open>3 i\<close> of a buffer
  of three floats per point, ends normally; it keeps the floats before \<open>3 i\<close> and writes
  the coordinates of every point from \<open>i\<close> on at its place.
\<close>

lemma fill_loop_correct:
  assumes "nVertices = int (length points)"
    and "dst = 3 * i"
    and "i \<le> length points"
    and "length buffer = 3 * length points"
  shows "\<exists>filled. fill_loop i nVertices points dst buffer = Inr filled
      \<and> length filled = length buffer
      \<and> (\<forall>k<3 * i. filled ! k = buffer ! k)
      \<and> (\<forall>j. i \<le> j \<and> j < length points \<longrightarrow>
             filled ! (3 * j) = Some (pt_x (points ! j))
           \<and> filled ! (3 * j + 1) = Some (pt_y (points ! j))
           \<and> filled ! (3 * j + 2) = Some (pt_z (points ! j)))"
  using assms
proof (induction i nVertices points dst buffer rule: fill_loop.induct)
  case (1 i nVertices points dst buffer)
  show ?case
  proof (cases "i < length points")
    case False
    with "1.prems" have "i = length points" by simp
    have stop: "fill_loop i nVertices points dst buffer = Inr buffer"
      using \<open>i = length points\<close> "1.prems"(1) by (subst fill_loop.simps) simp
    have none: "\<forall>j. i \<le> j \<and> j < length points \<longrightarrow>
             buffer ! (3 * j) = Some (pt_x (points ! j))
           \<and> buffer ! (3 * j + 1) = Some (pt_y (points ! j))
           \<and> buffer ! (3 * j + 2) = Some (pt_z (points ! j))"
      using \<open>i = length points\<close> by auto
    from stop none show ?thesis by simp
  next
    case True
    let ?b = "buffer[dst := Some (pt_x (points ! i)),
                     dst + 1 := Some (pt_y (points ! i)),
                     dst + 2 := Some (pt_z (points ! i))]"
    have room: "dst + 2 < length buffer"
      using True "1.prems" by simp
    have cond: "int i < nVertices"
      using True "1.prems" by simp
    have step: "fill_loop i nVertices points dst buffer
                  = fill_loop (Suc i) nVertices points (dst + 3) ?b"
      using True room cond by (subst fill_loop.simps) simp
    have ih_pre: "dst + 3 = 3 * Suc i" "Suc i \<le> length points" "length ?b = 3 * length points"
      using True "1.prems" by simp_all
    from "1.IH" [OF cond True room "1.prems"(1) ih_pre]
    obtain filled where f:
      "fill_loop (Suc i) nVertices points (dst + 3) ?b = Inr filled"
      "length filled = length ?b"
      "\<forall>k<3 * Suc i. filled ! k = ?b ! k"
      "\<forall>j. Suc i \<le> j \<and> j < length points \<longrightarrow>
             filled ! (3 * j) = Some (pt_x (points ! j))
           \<and> filled ! (3 * j + 1) = Some (pt_y (points ! j))
           \<and> filled ! (3 * j + 2) = Some (pt_z (points ! j))"
      by blast
    have old: "\<forall>k<3 * i. filled ! k = buffer ! k"
      using f(3) "1.prems"(2) by simp
    have here: "filled ! (3 * i) = Some (pt_x (points ! i))
              \<and> filled ! (3 * i + 1) = Some (pt_y (points ! i))
              \<and> filled ! (3 * i + 2) = Some (pt_z (points ! i))"
      using f(3) "1.prems"(2) room by simp
    have all: "\<forall>j. i \<le> j \<and> j < length points \<longrightarrow>
             filled ! (3 * j) = Some (pt_x (points ! j))
           \<and> filled ! (3 * j + 1) = Some (pt_y (points ! j))
           \<and> filled ! (3 * j + 2) = Some (pt_z (points ! j))"
    proof (intro allI impI)
      fix j assume j: "i \<le> j \<and> j < length points"
      show "filled ! (3 * j) = Some (pt_x (points ! j))
           \<and> filled ! (3 * j + 1) = Some (pt_y (points ! j))
           \<and> filled ! (3 * j + 2) = Some (pt_z (points ! j))"
      proof (cases "j = i")
        case True
        with here show ?thesis by simp
      next
        case False
        with j have "Suc i \<le> j \<and> j < length points" by simp
        with f(4) show ?thesis by blast
      qed
    qed
    from step f(1,2) old all show ?thesis by simp
  qed
qed

text \<open>
  C10. For a mesh function set that reports as many vertices as it has points, and a
  vertex buffer of three floats per vertex (the \<^verbatim>\<open>osdPosition\<close> requirement of
  \<^verbatim>\<open>initialize\<close>), \<^verbatim>\<open>createVertexStream\<close> returns normally, acquires the buffer for
  exactly that number \<open>n\<close> of vertices and commits \<open>3 n\<close> floats, of which the ones at
  \<open>3 i\<close>, \<open>3 i + 1\<close> and \<open>3 i + 2\<close> are the x, y and z of point \<open>i\<close>, for every
  \<open>i < n\<close>.
\<close>

theorem createVertexStream_layout:
  assumes count: "numVertices meshFn = int (length (getPoints meshFn))"
    and range: "length (getPoints meshFn) < 2 ^ 31"
    and dim: "vb_dimension vertexBuffer = 3"
  shows "\<exists>filled. createVertexStream meshFn vertexBuffer
             = Inr (vertexBuffer\<lparr>vb_vertexCount := length (getPoints meshFn), vb_committed := Some filled\<rparr>)
      \<and> length filled = 3 * length (getPoints meshFn)
      \<and> (\<forall>i<length (getPoints meshFn).
             filled ! (3 * i) = Some (pt_x (getPoints meshFn ! i))
           \<and> filled ! (3 * i + 1) = Some (pt_y (getPoints meshFn ! i))
           \<and> filled ! (3 * i + 2) = Some (pt_z (getPoints meshFn ! i)))"
proof -
  let ?n = "length (getPoints meshFn)"
  have acq: "acquire_count (numVertices meshFn) = ?n"
    using count range by (simp add: acquire_count_def)
  let ?buffer = "acquire ?n vertexBuffer"
  have len: "length ?buffer = 3 * ?n"
    using dim by (simp add: acquire_def)
  have start: "(0::nat) = 3 * 0" "0 \<le> ?n"
    by simp_all
  have "\<exists>filled. fill_loop 0 (numVertices meshFn) (getPoints meshFn) 0 ?buffer = Inr filled
      \<and> length filled = length ?buffer
      \<and> (\<forall>k<3 * 0. filled ! k = ?buffer ! k)
      \<and> (\<forall>j. 0 \<le> j \<and> j < ?n \<longrightarrow>
             filled ! (3 * j) = Some (pt_x (getPoints meshFn ! j))
           \<and> filled ! (3 * j + 1) = Some (pt_y (getPoints meshFn ! j))
           \<and> filled ! (3 * j + 2) = Some (pt_z (getPoints meshFn ! j)))"
    by (rule fill_loop_correct [OF count start len])
  then obtain filled where f:
    "fill_loop 0 (numVertices meshFn) (getPoints meshFn) 0 ?buffer = Inr filled"
    "length filled = length ?buffer"
    "\<forall>j. 0 \<le> j \<and> j < ?n \<longrightarrow>
             filled ! (3 * j) = Some (pt_x (getPoints meshFn ! j))
           \<and> filled ! (3 * j + 1) = Some (pt_y (getPoints meshFn ! j))
           \<and> filled ! (3 * j + 2) = Some (pt_z (getPoints meshFn ! j))"
    by (elim exE conjE)
  have "createVertexStream meshFn vertexBuffer
          = Inr (vertexBuffer\<lparr>vb_vertexCount := ?n, vb_committed := Some filled\<rparr>)"
    using f(1) acq by (simp add: createVertexStream_def)
  with f(2,3) len show ?thesis by (intro exI [of _ filled]) simp
qed

text \<open>
  The theorem on a mesh of two points: the committed buffer is
  \<open>[1, 2, 3, 4, 5, 6]\<close>, acquired for two vertices.
\<close>

lemma example_stream:
  "createVertexStream example_meshFn example_vertexBuffer
     = Inr \<lparr>vb_dimension = 3, vb_vertexCount = 2,
            vb_committed = Some [Some 1, Some 2, Some 3, Some 4, Some 5, Some 6]\<rparr>"
  by (simp add: createVertexStream_def example_meshFn_def example_vertexBuffer_def
      acquire_def acquire_count_def fill_loop.simps eval_nat_numeral)

theorem createVertexStream_layout_witness:
  "numVertices example_meshFn = int (length (getPoints example_meshFn))
   \<and> length (getPoints example_meshFn) < 2 ^ 31
   \<and> vb_dimension example_vertexBuffer = 3
   \<and> (\<exists>filled. createVertexStream example_meshFn example_vertexBuffer
         = Inr (example_vertexBuffer\<lparr>vb_vertexCount := 2, vb_committed := Some filled\<rparr>)
       \<and> length filled = 6
       \<and> filled = [Some 1, Some 2, Some 3, Some 4, Some 5, Some 6])"
proof -
  have count: "numVertices example_meshFn = int (length (getPoints example_meshFn))"
    by (simp add: example_meshFn_def)
  have range: "length (getPoints example_meshFn) < 2 ^ 31"
    by (simp add: example_meshFn_def)
  have dim: "vb_dimension example_vertexBuffer = 3"
    by (simp add: example_vertexBuffer_def)
  have two: "length (getPoints example_meshFn) = 2"
    by (simp add: example_meshFn_def)
  from createVertexStream_layout [OF count range dim] obtain filled where f:
    "createVertexStream example_meshFn example_vertexBuffer
       = Inr (example_vertexBuffer\<lparr>vb_vertexCount := length (getPoints example_meshFn),
                                     vb_committed := Some filled\<rparr>)"
    "length filled = 3 * length (getPoints example_meshFn)"
    by blast
  from f(1) example_stream have "filled = [Some 1, Some 2, Some 3, Some 4, Some 5, Some 6]"
    by (simp add: example_vertexBuffer_def)
  with f two count range dim show ?thesis by simp
qed

end
